theory Spec2Isabelle
  imports Main "HOL-Library.Sublist"
begin

section \<open>Python values\<close>

text \<open>
  A Python \<open>str\<close> is a sequence of Unicode code points, a \<open>bytes\<close> object a sequence of
  bytes. A string literal of the source such as \<^verbatim>\<open>"body"\<close> is written \<open>str ''body''\<close>.
\<close>

type_synonym pystr = "nat list"
type_synonym bytes = "char list"

definition str :: "string \<Rightarrow> pystr" where
  "str s = map of_char s"

datatype pyval =
    PNone
  | PBool bool
  | PInt int
  | PStr pystr
  | PBytes bytes
  | PDict "(pystr \<times> pyval) list"

type_synonym dict = "(pystr \<times> pyval) list"

datatype py_error =
  IndexError | AttributeError | TypeError | UnicodeDecodeError | External pystr

text \<open>The truth value of an object, as \<^verbatim>\<open>if x:\<close> tests it.\<close>

fun truthy :: "pyval \<Rightarrow> bool" where
  "truthy PNone = False"
| "truthy (PBool b) = b"
| "truthy (PInt i) = (i \<noteq> 0)"
| "truthy (PStr s) = (s \<noteq> [])"
| "truthy (PBytes b) = (b \<noteq> [])"
| "truthy (PDict d) = (d \<noteq> [])"

subsection \<open>String operations\<close>

text \<open>\<^verbatim>\<open>s.startswith(p)\<close>\<close>

fun startswith :: "pystr \<Rightarrow> pystr \<Rightarrow> bool" where
  "startswith s [] = True"
| "startswith [] (p # ps) = False"
| "startswith (c # cs) (p # ps) = (c = p \<and> startswith cs ps)"

text \<open>\<^verbatim>\<open>p in s\<close> on two strings: \<open>p\<close> occurs in \<open>s\<close> as a contiguous run.\<close>

fun contains :: "pystr \<Rightarrow> pystr \<Rightarrow> bool" where
  "contains p [] = (p = [])"
| "contains p (c # cs) = (startswith (c # cs) p \<or> contains p cs)"

text \<open>\<^verbatim>\<open>s.split(sep)\<close> for a separator of one character; the result is never empty.\<close>

fun split :: "pystr \<Rightarrow> nat \<Rightarrow> pystr list" where
  "split [] sep = [[]]"
| "split (c # cs) sep =
     (if c = sep then [] # split cs sep
      else (case split cs sep of [] \<Rightarrow> [[c]] | p # ps \<Rightarrow> (c # p) # ps))"

text \<open>\<^verbatim>\<open>str(n)\<close> of an integer: its decimal digits, with a minus sign when negative.\<close>

fun digits :: "nat \<Rightarrow> pystr" where
  "digits n = (if n < 10 then [48 + n] else digits (n div 10) @ [48 + n mod 10])"

declare digits.simps [simp del]

definition str_of_int :: "int \<Rightarrow> pystr" where
  "str_of_int i = (if i < 0 then 45 # digits (nat (- i)) else digits (nat i))"

text \<open>
  What an f-string puts for \<^verbatim>\<open>{x}\<close>: the string itself, the decimal digits of an
  integer, and \<^verbatim>\<open>None\<close> for \<^verbatim>\<open>None\<close>.
\<close>

definition fmt_str :: "pystr option \<Rightarrow> pystr" where
  "fmt_str x = (case x of None \<Rightarrow> str ''None'' | Some s \<Rightarrow> s)"

definition fmt_int :: "int option \<Rightarrow> pystr" where
  "fmt_int x = (case x of None \<Rightarrow> str ''None'' | Some i \<Rightarrow> str_of_int i)"

subsection \<open>\<^verbatim>\<open>bytes.decode("utf-8")\<close>\<close>

text \<open>
  The strict UTF-8 decoder: one to four bytes per code point, continuation bytes in
  \<open>0x80..0xBF\<close>, no overlong form, no surrogate, nothing above \<open>0x10FFFF\<close>.
  \<open>None\<close> stands for the \<^verbatim>\<open>UnicodeDecodeError\<close> that Python raises.
\<close>

definition cont :: "nat \<Rightarrow> bool" where
  "cont b = (0x80 \<le> b \<and> b \<le> 0xBF)"

fun utf8 :: "nat list \<Rightarrow> pystr option" where
  "utf8 [] = Some []"
| "utf8 (b0 # bs) =
     (if b0 < 0x80 then map_option ((#) b0) (utf8 bs)
      else if 0xC2 \<le> b0 \<and> b0 \<le> 0xDF then
        (case bs of
           b1 # r \<Rightarrow>
             if cont b1
             then map_option ((#) ((b0 - 0xC0) * 64 + (b1 - 0x80))) (utf8 r)
             else None
         | _ \<Rightarrow> None)
      else if 0xE0 \<le> b0 \<and> b0 \<le> 0xEF then
        (case bs of
           b1 # b2 # r \<Rightarrow>
             (let cp = (b0 - 0xE0) * 4096 + (b1 - 0x80) * 64 + (b2 - 0x80) in
              if cont b1 \<and> cont b2 \<and> 0x800 \<le> cp \<and> \<not> (0xD800 \<le> cp \<and> cp \<le> 0xDFFF)
              then map_option ((#) cp) (utf8 r)
              else None)
         | _ \<Rightarrow> None)
      else if 0xF0 \<le> b0 \<and> b0 \<le> 0xF4 then
        (case bs of
           b1 # b2 # b3 # r \<Rightarrow>
             (let cp = (b0 - 0xF0) * 262144 + (b1 - 0x80) * 4096
                       + (b2 - 0x80) * 64 + (b3 - 0x80) in
              if cont b1 \<and> cont b2 \<and> cont b3 \<and> 0x10000 \<le> cp \<and> cp \<le> 0x10FFFF
              then map_option ((#) cp) (utf8 r)
              else None)
         | _ \<Rightarrow> None)
      else None)"

definition decode_utf8 :: "bytes \<Rightarrow> pystr option" where
  "decode_utf8 b = utf8 (map of_char b)"

subsection \<open>Dictionaries\<close>

text \<open>
  A Python \<open>dict\<close> keeps its keys in insertion order and holds each key once; it is an
  association list here. Assigning to a key that is present replaces its value in place,
  assigning to a new key appends it.
\<close>

text \<open>\<^verbatim>\<open>d.get(k)\<close>\<close>

fun dict_get :: "('k \<times> 'v) list \<Rightarrow> 'k \<Rightarrow> 'v option" where
  "dict_get [] k = None"
| "dict_get ((k', v) # d) k = (if k' = k then Some v else dict_get d k)"

text \<open>\<^verbatim>\<open>k in d\<close>\<close>

definition dict_contains :: "('k \<times> 'v) list \<Rightarrow> 'k \<Rightarrow> bool" where
  "dict_contains d k = (dict_get d k \<noteq> None)"

text \<open>\<^verbatim>\<open>d[k] = v\<close>\<close>

fun dict_set :: "('k \<times> 'v) list \<Rightarrow> 'k \<Rightarrow> 'v \<Rightarrow> ('k \<times> 'v) list" where
  "dict_set [] k v = [(k, v)]"
| "dict_set ((k', v') # d) k v = (if k' = k then (k, v) # d else (k', v') # dict_set d k v)"

text \<open>\<^verbatim>\<open>d.pop(k, None)\<close>, the popped value dropped\<close>

fun dict_pop :: "('k \<times> 'v) list \<Rightarrow> 'k \<Rightarrow> ('k \<times> 'v) list" where
  "dict_pop [] k = []"
| "dict_pop ((k', v') # d) k = (if k' = k then dict_pop d k else (k', v') # dict_pop d k)"

text \<open>\<^verbatim>\<open>d.update(e)\<close>\<close>

fun dict_update :: "('k \<times> 'v) list \<Rightarrow> ('k \<times> 'v) list \<Rightarrow> ('k \<times> 'v) list" where
  "dict_update d [] = d"
| "dict_update d ((k, v) # e) = dict_update (dict_set d k v) e"

text \<open>\<^verbatim>\<open>dict(pairs)\<close>\<close>

definition dict_of :: "('k \<times> 'v) list \<Rightarrow> ('k \<times> 'v) list" where
  "dict_of pairs = dict_update [] pairs"

section \<open>The framework objects\<close>

text \<open>
  The fields of the configuration, the request and the response that
  \<^verbatim>\<open>elasticapm/contrib/sanic/utils.py\<close> reads. An attribute that \<^verbatim>\<open>hasattr\<close> may find
  missing is an option; so is a value that may be \<^verbatim>\<open>None\<close>.

  \<^verbatim>\<open>config.capture_body\<close> is a string of the agent's configuration, one of \<^verbatim>\<open>off\<close>,
  \<^verbatim>\<open>errors\<close>, \<^verbatim>\<open>transactions\<close> and \<^verbatim>\<open>all\<close>; body capture is disabled when it is
  \<^verbatim>\<open>off\<close>. \<^verbatim>\<open>request.forwarded\<close> is what the framework parsed from the proxy headers: a
  dictionary, empty when there is none; the field takes any value, so that the calls
  the source makes on it are seen on each.
\<close>

record config =
  capture_headers :: bool
  capture_body :: pystr

record request =
  server_name :: "pyval option"
  server_port :: "pyval option"
  version :: "pyval option"
  app_config :: "(pystr \<times> pyval) list"
  "method" :: pystr
  scheme :: pystr
  cookies :: pyval
  headers :: "(pystr \<times> pyval) list"
  content_type :: pystr
  body :: bytes
  url :: pystr
  forwarded :: pyval
  socket :: "pystr option \<times> int option"
  ip :: "pystr option"
  port :: "int option"
  remote_addr :: pystr

record response =
  resp_cookies :: pyval
  status :: pyval
  resp_headers :: "(pystr \<times> pyval) list"
  resp_content_type :: pystr
  resp_body :: bytes

datatype entity = Request request | HTTPResponse response

fun entity_headers :: "entity \<Rightarrow> (pystr \<times> pyval) list" where
  "entity_headers (Request r) = headers r"
| "entity_headers (HTTPResponse r) = resp_headers r"

text \<open>\<^verbatim>\<open>getattr(request, name)\<close> for the names \<open>get_env\<close> asks for; \<open>None\<close> when
  \<^verbatim>\<open>hasattr\<close> is false.\<close>

definition getattr :: "request \<Rightarrow> pystr \<Rightarrow> pyval option" where
  "getattr r a =
     (if a = str ''server_name'' then server_name r
      else if a = str ''server_port'' then server_port r
      else if a = str ''version'' then version r
      else None)"

section \<open>The functions of \<^verbatim>\<open>utils.py\<close>\<close>

subsection \<open>\<^verbatim>\<open>get_env\<close>\<close>

text \<open>The generator, as the list of the pairs it yields.\<close>

fun get_env_loop :: "request \<Rightarrow> pystr list \<Rightarrow> (pystr \<times> pyval) list" where
  "get_env_loop r [] = []"
| "get_env_loop r (a # as) =
     (case getattr r a of
        Some v \<Rightarrow> (a, v) # get_env_loop r as
      | None \<Rightarrow> get_env_loop r as)"

definition env_attrs :: "pystr list" where
  "env_attrs = [str ''server_name'', str ''server_port'', str ''version'']"

definition get_env :: "request \<Rightarrow> (pystr \<times> pyval) list" where
  "get_env r = get_env_loop r env_attrs"

subsection \<open>\<^verbatim>\<open>extract_header\<close>\<close>

text \<open>\<open>pop_each\<close> is the \<^verbatim>\<open>for\<close> loop; an empty skip list is false, like \<^verbatim>\<open>None\<close>.\<close>

fun pop_each :: "dict \<Rightarrow> pystr list \<Rightarrow> dict" where
  "pop_each header [] = header"
| "pop_each header (h # hs) = pop_each (dict_pop header h) hs"

definition extract_header :: "entity \<Rightarrow> pystr list option \<Rightarrow> dict" where
  "extract_header ent skip_headers =
     (let header = dict_of (entity_headers ent) in
      case skip_headers of
        None \<Rightarrow> header
      | Some sk \<Rightarrow> if sk \<noteq> [] then pop_each header sk else header)"

subsection \<open>\<^verbatim>\<open>_get_client_ip\<close>\<close>

text \<open>
  Named \<open>get_client_ip\<close> here. \<open>other\<close> is the \<^verbatim>\<open>else\<close> branch of the source, taken when
  \<^verbatim>\<open>request.forwarded\<close> is false (\<^verbatim>\<open>None\<close> or empty); \<open>44\<close> is the comma. Only a string
  has a \<^verbatim>\<open>split\<close> that takes \<^verbatim>\<open>","\<close>: on a dictionary, an integer or a boolean the
  attribute is missing (\<^verbatim>\<open>AttributeError\<close>), and \<^verbatim>\<open>bytes.split\<close> refuses a string
  separator (\<^verbatim>\<open>TypeError\<close>). The truth value of \<^verbatim>\<open>request.ip\<close> and of
  \<^verbatim>\<open>request.port\<close> is Python's: \<^verbatim>\<open>None\<close>, the empty string and \<open>0\<close> count as false.
\<close>

definition get_client_ip :: "request \<Rightarrow> py_error + pystr" where
  "get_client_ip r =
     (let other =
        (if socket r \<noteq> (None, None)
         then Inr (fmt_str (fst (socket r)) @ str '':'' @ fmt_int (snd (socket r)))
         else if (ip r \<noteq> None \<and> ip r \<noteq> Some []) \<and> (port r \<noteq> None \<and> port r \<noteq> Some 0)
         then Inr (fmt_str (ip r) @ str '':'' @ fmt_int (port r))
         else Inr (remote_addr r))
      in if truthy (forwarded r)
         then (case forwarded r of
                 PStr x_forwarded_for \<Rightarrow>
                   (case split x_forwarded_for 44 of
                      [] \<Rightarrow> Inl IndexError
                    | first # _ \<Rightarrow> Inr first)
               | PBytes _ \<Rightarrow> Inl TypeError
               | _ \<Rightarrow> Inl AttributeError)
         else other)"

subsection \<open>\<^verbatim>\<open>get_request_info\<close>\<close>

text \<open>
  \<^verbatim>\<open>constants.HTTP_WITH_BODY\<close> and \<^verbatim>\<open>get_url_dict\<close> are defined in other modules; they
  are the first two arguments. An exception of \<open>get_url_dict\<close> or of \<open>get_client_ip\<close>
  goes to the caller. Line 74 tests the truth value of \<^verbatim>\<open>config.capture_body\<close>: that of a
  string, false only when it is empty.
\<close>

definition get_request_info ::
  "pystr list \<Rightarrow> (pystr \<Rightarrow> py_error + pyval) \<Rightarrow> config \<Rightarrow> request \<Rightarrow> pystr list option
     \<Rightarrow> py_error + dict" where
  "get_request_info HTTP_WITH_BODY get_url_dict cfg r skip_headers =
     (let env = dict_of (get_env r);
          env = dict_update env (dict_of (app_config r))
      in case get_client_ip r of
           Inl e \<Rightarrow> Inl e
         | Inr remote_address \<Rightarrow>
     (let result =
            [(str ''env'', PDict env),
             (str ''method'', PStr (method r)),
             (str ''socket'', PDict
                [(str ''remote_address'', PStr remote_address),
                 (str ''encrypted'', PBool (scheme r \<in> set [str ''https'', str ''wss'']))]),
             (str ''cookies'', cookies r)];
          result =
            (if capture_headers cfg
             then dict_set result (str ''headers'')
                    (PDict (extract_header (Request r) skip_headers))
             else result);
          result =
            (if method r \<in> set HTTP_WITH_BODY \<and> capture_body cfg \<noteq> [] then
               (let result =
                      (if startswith (content_type r) (str ''multipart'')
                          \<or> contains (str ''octet-stream'') (content_type r)
                       then dict_set result (str ''body'') (PStr (str ''[DISCARDED]''))
                       else result)
                in case decode_utf8 (body r) of
                     Some s \<Rightarrow> dict_set result (str ''body'') (PStr s)
                   | None \<Rightarrow> result)
             else result);
          result =
            (if \<not> dict_contains result (str ''body'')
             then dict_set result (str ''body'') (PStr (str ''[REDACTED]''))
             else result)
      in (case get_url_dict (url r) of
            Inl e \<Rightarrow> Inl e
          | Inr u \<Rightarrow> Inr (dict_set result (str ''url'') u))))"

subsection \<open>\<^verbatim>\<open>get_response_info\<close>\<close>

text \<open>\<^verbatim>\<open>isinstance(v, int)\<close>; a Python \<open>bool\<close> is an \<open>int\<close>.\<close>

fun is_integer :: "pyval \<Rightarrow> bool" where
  "is_integer (PInt _) = True"
| "is_integer (PBool _) = True"
| "is_integer _ = False"

definition get_response_info :: "config \<Rightarrow> response \<Rightarrow> pystr list option \<Rightarrow> py_error + dict" where
  "get_response_info cfg resp skip_headers =
     (let result = [(str ''cookies'', resp_cookies resp)];
          result =
            (if is_integer (status resp)
             then dict_set result (str ''status_code'') (status resp)
             else result);
          result =
            (if capture_headers cfg
             then dict_set result (str ''headers'')
                    (PDict (extract_header (HTTPResponse resp) skip_headers))
             else result)
      in if capture_body cfg \<noteq> []
            \<and> \<not> contains (str ''octet-stream'') (resp_content_type resp)
         then (case decode_utf8 (resp_body resp) of
                 None \<Rightarrow> Inl UnicodeDecodeError
               | Some s \<Rightarrow> Inr (dict_set result (str ''body'') (PStr s)))
         else Inr (dict_set result (str ''body'') (PStr (str ''[REDACTED]''))))"

section \<open>Example inputs\<close>

text \<open>
  Concrete inputs on which the theorems below are instantiated. \<open>example_methods\<close>
  stands for \<^verbatim>\<open>constants.HTTP_WITH_BODY\<close> and \<open>example_url_dict\<close> for \<^verbatim>\<open>get_url_dict\<close>.
\<close>

definition example_methods :: "pystr list" where
  "example_methods = [str ''POST'', str ''PUT'', str ''PATCH'', str ''DELETE'']"

definition example_url_dict :: "pystr \<Rightarrow> py_error + pyval" where
  "example_url_dict u = Inr (PDict [(str ''full'', PStr u)])"

definition example_config :: config where
  "example_config = \<lparr>capture_headers = True, capture_body = str ''all''\<rparr>"

definition example_request :: request where
  "example_request =
     \<lparr>server_name = Some (PStr (str ''localhost'')),
      server_port = Some (PInt 8000),
      version = None,
      app_config = [(str ''server_name'', PStr (str ''configured''))],
      method = str ''POST'',
      scheme = str ''https'',
      cookies = PDict [],
      headers = [(str ''a'', PStr (str ''1''))],
      content_type = str ''application/octet-stream'',
      body = ''abc'',
      url = str ''https://h/p'',
      forwarded = PDict [],
      socket = (None, None),
      ip = None,
      port = None,
      remote_addr = str ''10.0.0.1''\<rparr>"

definition example_response :: response where
  "example_response =
     \<lparr>resp_cookies = PDict [],
      status = PInt 200,
      resp_headers = [(str ''a'', PStr (str ''1''))],
      resp_content_type = str ''text/plain'',
      resp_body = [CHR 0xFF]\<rparr>"

section \<open>Strings and dictionaries\<close>

lemma str_eq_iff: "str a = str b \<longleftrightarrow> a = b"
  unfolding str_def by (simp add: inj_map_eq_map inj_on_def)

text \<open>The string helpers agree with the library's \<open>prefix\<close> and \<open>sublist\<close>.\<close>

lemma startswith_prefix: "startswith s p \<longleftrightarrow> prefix p s"
  by (induction s p rule: startswith.induct) auto

lemma contains_sublist: "contains p s \<longleftrightarrow> sublist p s"
  by (induction s) (auto simp: startswith_prefix sublist_Cons_right)

text \<open>ASCII bytes decode to themselves; no sequence starts with a byte above \<open>0xF4\<close>.\<close>

lemma utf8_ascii: "\<forall>b \<in> set bs. b < 128 \<Longrightarrow> utf8 bs = Some bs"
  by (induction bs) auto

lemma utf8_high_byte: "0xF5 \<le> b \<Longrightarrow> utf8 (b # bs) = None"
  by simp

text \<open>Dictionary operations.\<close>

lemma dict_get_map_of: "dict_get d k = map_of d k"
  by (induction d) auto

lemma dict_get_None_iff: "dict_get d k = None \<longleftrightarrow> k \<notin> fst ` set d"
  by (simp add: dict_get_map_of map_of_eq_None_iff)

lemma dict_get_set: "dict_get (dict_set d k v) k' = (if k = k' then Some v else dict_get d k')"
  by (induction d) auto

lemma keys_dict_set_present: "k \<in> fst ` set d \<Longrightarrow> map fst (dict_set d k v) = map fst d"
  by (induction d) force+

lemma dict_set_fresh: "k \<notin> fst ` set d \<Longrightarrow> dict_set d k v = d @ [(k, v)]"
  by (induction d) auto

lemma keys_dict_set:
  "map fst (dict_set d k v) = (if k \<in> fst ` set d then map fst d else map fst d @ [k])"
  by (simp add: keys_dict_set_present dict_set_fresh)

lemma distinct_dict_set: "distinct (map fst d) \<Longrightarrow> distinct (map fst (dict_set d k v))"
  by (simp add: keys_dict_set)

lemma dict_pop_filter: "dict_pop d k = filter (\<lambda>p. fst p \<noteq> k) d"
  by (induction d) auto

lemma pop_each_filter: "pop_each d sk = filter (\<lambda>p. fst p \<notin> set sk) d"
proof (induction sk arbitrary: d)
  case Nil
  show ?case by simp
next
  case (Cons k sk)
  have "pop_each d (k # sk) = filter (\<lambda>p. fst p \<notin> set sk) (filter (\<lambda>p. fst p \<noteq> k) d)"
    by (simp add: Cons.IH dict_pop_filter)
  also have "\<dots> = filter (\<lambda>p. fst p \<notin> set (k # sk)) d"
    by (auto intro: filter_cong)
  finally show ?case .
qed

lemma split_nonempty: "split s c \<noteq> []"
  by (induction s) (auto split: list.splits)

lemma hd_split: "\<exists>ps. split s c = takeWhile (\<lambda>x. x \<noteq> c) s # ps"
  by (induction s) (auto split: list.splits)

lemma distinct_dict_update: "distinct (map fst d) \<Longrightarrow> distinct (map fst (dict_update d e))"
  by (induction e arbitrary: d) (auto simp: distinct_dict_set)

lemma distinct_dict_of: "distinct (map fst (dict_of e))"
  by (simp add: dict_of_def distinct_dict_update)

lemma dict_update_distinct:
  "distinct (map fst e) \<Longrightarrow> fst ` set d \<inter> fst ` set e = {} \<Longrightarrow> dict_update d e = d @ e"
proof (induction e arbitrary: d)
  case Nil
  show ?case by simp
next
  case (Cons p e)
  obtain k v where p: "p = (k, v)" by (cases p)
  from Cons.prems p have fresh: "k \<notin> fst ` set d" by auto
  from Cons.prems p have "distinct (map fst e)" and "fst ` set (d @ [(k, v)]) \<inter> fst ` set e = {}"
    by auto
  then have "dict_update (d @ [(k, v)]) e = (d @ [(k, v)]) @ e"
    by (rule Cons.IH)
  with fresh p show ?case by (simp add: dict_set_fresh)
qed

lemma dict_of_distinct: "distinct (map fst e) \<Longrightarrow> dict_of e = e"
  by (simp add: dict_of_def dict_update_distinct)

lemma dict_get_update_distinct:
  "distinct (map fst e) \<Longrightarrow>
     dict_get (dict_update d e) k =
       (case dict_get e k of Some v \<Rightarrow> Some v | None \<Rightarrow> dict_get d k)"
proof (induction e arbitrary: d)
  case Nil
  show ?case by simp
next
  case (Cons p e)
  obtain k' v' where p: "p = (k', v')" by (cases p)
  from Cons.prems p have absent: "dict_get e k' = None" and dist: "distinct (map fst e)"
    by (simp_all add: dict_get_None_iff)
  show ?case
    using absent by (auto simp: p Cons.IH [OF dist] dict_get_set split: option.splits)
qed

lemma dict_get_update_dict:
  "dict_get (dict_update d (dict_of e)) k =
     (case dict_get (dict_of e) k of Some v \<Rightarrow> Some v | None \<Rightarrow> dict_get d k)"
  by (rule dict_get_update_distinct) (rule distinct_dict_of)

lemma count_list_distinct: "distinct xs \<Longrightarrow> x \<in> set xs \<Longrightarrow> count_list xs x = 1"
  by (induction xs) (auto simp: count_list_0_iff)

section \<open>What the two info functions return\<close>

text \<open>
  \<open>get_client_ip\<close> returns an address when \<^verbatim>\<open>request.forwarded\<close> is false or a string,
  and raises on every other value.
\<close>

lemma get_client_ip_unforwarded:
  assumes "\<not> truthy (forwarded r)"
  shows "get_client_ip r =
           Inr (if socket r \<noteq> (None, None)
                then fmt_str (fst (socket r)) @ str '':'' @ fmt_int (snd (socket r))
                else if (ip r \<noteq> None \<and> ip r \<noteq> Some []) \<and> (port r \<noteq> None \<and> port r \<noteq> Some 0)
                then fmt_str (ip r) @ str '':'' @ fmt_int (port r)
                else remote_addr r)"
  using assms by (simp add: get_client_ip_def)

lemma get_client_ip_forwarded_str:
  assumes "forwarded r = PStr x" and "x \<noteq> []"
  shows "get_client_ip r = Inr (takeWhile (\<lambda>c. c \<noteq> 44) x)"
proof -
  obtain ps where "split x 44 = takeWhile (\<lambda>c. c \<noteq> 44) x # ps"
    using hd_split by blast
  with assms show ?thesis by (simp add: get_client_ip_def)
qed

lemma get_client_ip_forwarded_dict:
  assumes "forwarded r = PDict d" and "d \<noteq> []"
  shows "get_client_ip r = Inl AttributeError"
  using assms by (simp add: get_client_ip_def)

lemma get_client_ip_returns_iff:
  "(\<exists>a. get_client_ip r = Inr a) \<longleftrightarrow>
     \<not> truthy (forwarded r) \<or> (\<exists>x. forwarded r = PStr x)"
proof (cases "truthy (forwarded r)")
  case False
  then show ?thesis by (simp add: get_client_ip_unforwarded)
next
  case True
  show ?thesis
  proof (cases "forwarded r")
    case (PStr x)
    with True have "x \<noteq> []" by simp
    with PStr show ?thesis by (simp add: get_client_ip_forwarded_str)
  qed (insert True, simp_all add: get_client_ip_def)
qed

lemma request_info_returns:
  assumes "get_client_ip r = Inr a" and "U (url r) = Inr u"
  shows "\<exists>res. get_request_info H U cfg r skip = Inr res"
  using assms by (simp add: get_request_info_def Let_def)

lemma request_info_returns_iff:
  "(\<exists>res. get_request_info H U cfg r skip = Inr res) \<longleftrightarrow>
     (\<exists>a. get_client_ip r = Inr a) \<and> (\<exists>u. U (url r) = Inr u)"
  by (auto simp: get_request_info_def Let_def split: sum.splits)

lemma request_info_body:
  assumes "get_request_info H U cfg r skip = Inr res"
  shows "dict_get res (str ''body'') =
           Some (PStr (if method r \<in> set H \<and> capture_body cfg \<noteq> []
                       then (case decode_utf8 (body r) of
                               Some s \<Rightarrow> s
                             | None \<Rightarrow>
                                 if startswith (content_type r) (str ''multipart'')
                                    \<or> contains (str ''octet-stream'') (content_type r)
                                 then str ''[DISCARDED]'' else str ''[REDACTED]'')
                       else str ''[REDACTED]''))"
  using assms
  by (auto simp: get_request_info_def Let_def dict_get_set dict_contains_def str_eq_iff
      split: sum.splits option.splits if_splits)

lemma request_info_distinct:
  assumes "get_request_info H U cfg r skip = Inr res"
  shows "distinct (map fst res)"
  using assms
  by (auto simp: get_request_info_def Let_def str_eq_iff
      split: sum.splits option.splits if_splits intro!: distinct_dict_set)

lemma request_info_headers:
  assumes "get_request_info H U cfg r skip = Inr res"
  shows "dict_get res (str ''headers'') =
           (if capture_headers cfg then Some (PDict (extract_header (Request r) skip)) else None)"
  using assms
  by (auto simp: get_request_info_def Let_def dict_get_set dict_contains_def str_eq_iff
      split: sum.splits option.splits if_splits)

lemma request_info_env:
  assumes "get_request_info H U cfg r skip = Inr res"
  shows "dict_get res (str ''env'') =
           Some (PDict (dict_update (dict_of (get_env r)) (dict_of (app_config r))))"
  using assms
  by (auto simp: get_request_info_def Let_def dict_get_set dict_contains_def str_eq_iff
      split: sum.splits option.splits if_splits)

lemma response_info_body:
  assumes "get_response_info cfg resp skip = Inr res"
  shows "dict_get res (str ''body'') =
           Some (PStr (if capture_body cfg \<noteq> []
                          \<and> \<not> contains (str ''octet-stream'') (resp_content_type resp)
                       then the (decode_utf8 (resp_body resp)) else str ''[REDACTED]''))"
  using assms
  by (auto simp: get_response_info_def Let_def dict_get_set str_eq_iff
      split: option.splits if_splits)

lemma response_info_distinct:
  assumes "get_response_info cfg resp skip = Inr res"
  shows "distinct (map fst res)"
  using assms
  by (auto simp: get_response_info_def Let_def str_eq_iff
      split: sum.splits option.splits if_splits intro!: distinct_dict_set)

lemma response_info_headers:
  assumes "get_response_info cfg resp skip = Inr res"
  shows "dict_get res (str ''headers'') =
           (if capture_headers cfg then Some (PDict (extract_header (HTTPResponse resp) skip)) else None)"
  using assms
  by (auto simp: get_response_info_def Let_def dict_get_set str_eq_iff
      split: option.splits if_splits)

lemma example_url:
  "example_url_dict (url example_request) = Inr (PDict [(str ''full'', PStr (str ''https://h/p''))])"
  by (simp add: example_url_dict_def example_request_def)

lemma example_address: "get_client_ip example_request = Inr (str ''10.0.0.1'')"
  by (simp add: get_client_ip_def example_request_def)

section \<open>The claims\<close>

lemma keys_dict_update: "fst ` set (dict_update d e) = fst ` set d \<union> fst ` set e"
proof (induction e arbitrary: d)
  case Nil
  show ?case by simp
next
  case (Cons p e)
  obtain k v where p: "p = (k, v)" by (cases p)
  have "set (map fst (dict_set d k v)) = insert k (fst ` set d)"
    by (auto simp: keys_dict_set)
  then have "fst ` set (dict_set d k v) = insert k (fst ` set d)"
    by simp
  then show ?case
    by (simp add: p Cons.IH)
qed

lemma keys_dict_of: "fst ` set (dict_of e) = fst ` set e"
  by (simp add: dict_of_def keys_dict_update)

lemma extract_header_filter:
  "extract_header ent skip =
     filter (\<lambda>p. fst p \<notin> set (case skip of None \<Rightarrow> [] | Some sk \<Rightarrow> sk))
       (dict_of (entity_headers ent))"
  by (cases skip) (simp_all add: extract_header_def pop_each_filter Let_def)

lemma get_env_loop_keys:
  "map fst (get_env_loop r as) = filter (\<lambda>a. getattr r a \<noteq> None) as"
  by (induction as) (auto split: option.splits)

lemma get_env_loop_values: "(a, v) \<in> set (get_env_loop r as) \<Longrightarrow> getattr r a = Some v"
  by (induction as) (auto split: option.splits)

text \<open>
  Claim C8. \<open>get_env\<close> yields one pair for each of \<open>server_name\<close>, \<open>server_port\<close>,
  \<open>version\<close> that the request exposes, skips the others, and keeps the order of that
  list; a request without \<open>version\<close> yields only the pairs of the attributes it has.
\<close>

theorem get_env_present_attributes:
  "get_env r =
     (case server_name r of None \<Rightarrow> [] | Some v \<Rightarrow> [(str ''server_name'', v)])
     @ (case server_port r of None \<Rightarrow> [] | Some v \<Rightarrow> [(str ''server_port'', v)])
     @ (case version r of None \<Rightarrow> [] | Some v \<Rightarrow> [(str ''version'', v)])
   \<and> map fst (get_env r) =
       filter (\<lambda>a. getattr r a \<noteq> None) [str ''server_name'', str ''server_port'', str ''version'']
   \<and> (\<forall>a v. (a, v) \<in> set (get_env r) \<longrightarrow> getattr r a = Some v)
   \<and> (version r = None \<longrightarrow>
        map fst (get_env r) =
          filter (\<lambda>a. getattr r a \<noteq> None) [str ''server_name'', str ''server_port''])"
proof -
  have explicit: "get_env r =
     (case server_name r of None \<Rightarrow> [] | Some v \<Rightarrow> [(str ''server_name'', v)])
     @ (case server_port r of None \<Rightarrow> [] | Some v \<Rightarrow> [(str ''server_port'', v)])
     @ (case version r of None \<Rightarrow> [] | Some v \<Rightarrow> [(str ''version'', v)])"
    by (simp add: get_env_def env_attrs_def getattr_def str_eq_iff split: option.splits)
  have keys: "map fst (get_env r) =
       filter (\<lambda>a. getattr r a \<noteq> None) [str ''server_name'', str ''server_port'', str ''version'']"
    unfolding get_env_def env_attrs_def by (rule get_env_loop_keys)
  have vals: "\<forall>a v. (a, v) \<in> set (get_env r) \<longrightarrow> getattr r a = Some v"
    unfolding get_env_def by (blast dest: get_env_loop_values)
  have "getattr r (str ''version'') = version r"
    by (simp add: getattr_def str_eq_iff)
  with keys have lacking: "version r = None \<longrightarrow>
        map fst (get_env r) =
          filter (\<lambda>a. getattr r a \<noteq> None) [str ''server_name'', str ''server_port'']"
    by simp
  from explicit keys vals lacking show ?thesis by blast
qed

theorem get_env_present_attributes_witness:
  "version example_request = None
   \<and> get_env example_request =
       [(str ''server_name'', PStr (str ''localhost'')), (str ''server_port'', PInt 8000)]
   \<and> map fst (get_env example_request) = [str ''server_name'', str ''server_port'']"
  using get_env_present_attributes [of example_request]
  by (simp add: example_request_def getattr_def str_eq_iff)

text \<open>
  Claim C6 says that a forwarded-for value gives its first comma-separated piece as the
  client address. The source reads \<^verbatim>\<open>request.forwarded\<close>, which the framework fills
  with the dictionary of the parsed proxy fields, and calls \<^verbatim>\<open>split\<close> on it: behind a
  proxy that sent \<open>for=1.2.3.4\<close> the call raises \<^verbatim>\<open>AttributeError\<close>, and so does
  \<open>get_request_info\<close>. The steps after the first are as the claim says (lemma
  \<open>get_client_ip_unforwarded\<close>).
\<close>

theorem forwarded_dict_raises:
  "truthy (forwarded (example_request\<lparr>forwarded := PDict [(str ''for'', PStr (str ''1.2.3.4''))]\<rparr>))
   \<and> get_client_ip (example_request\<lparr>forwarded := PDict [(str ''for'', PStr (str ''1.2.3.4''))]\<rparr>)
       = Inl AttributeError
   \<and> get_request_info example_methods example_url_dict example_config
        (example_request\<lparr>forwarded := PDict [(str ''for'', PStr (str ''1.2.3.4''))]\<rparr>) None
       = Inl AttributeError"
  by (simp add: get_request_info_def get_client_ip_def Let_def)

text \<open>
  Claim C7, as stated, fails. With headers \<open>{a: 1}\<close> and the skip list \<open>[a, b]\<close> the name
  \<open>b\<close> is listed and not present, and \<open>extract_header\<close> returns the empty mapping: the
  header \<open>a\<close> is popped.
\<close>

theorem extract_header_some_absent_counterexample:
  "str ''b'' \<in> set [str ''a'', str ''b'']
   \<and> str ''b'' \<notin> fst ` set (entity_headers (Request example_request))
   \<and> dict_of (entity_headers (Request example_request)) = [(str ''a'', PStr (str ''1''))]
   \<and> extract_header (Request example_request) (Some [str ''a'', str ''b'']) = []"
  by (simp add: extract_header_def dict_of_def example_request_def str_eq_iff Let_def)

text \<open>
  Claim C7, amended. When no listed header name is present among the entity's headers,
  \<open>extract_header\<close> returns the copy of the entity's headers unchanged (the header list
  itself when its names are distinct). In general a listed name that is absent is
  ignored: the result is that of the skip list restricted to the names present.
  \<open>extract_header\<close> is a total function: it has no raising branch.
\<close>

theorem extract_header_absent_names:
  "((\<forall>k \<in> set sk. k \<notin> fst ` set (entity_headers ent)) \<longrightarrow>
       extract_header ent (Some sk) = dict_of (entity_headers ent)
       \<and> (distinct (map fst (entity_headers ent)) \<longrightarrow>
            extract_header ent (Some sk) = entity_headers ent))
   \<and> extract_header ent (Some sk) =
       extract_header ent (Some (filter (\<lambda>k. k \<in> fst ` set (entity_headers ent)) sk))"
proof -
  let ?h = "dict_of (entity_headers ent)"
  have keys: "fst p \<in> fst ` set (entity_headers ent)" if "p \<in> set ?h" for p
    using that keys_dict_of [of "entity_headers ent"] by blast
  have all_absent: "extract_header ent (Some sk) = ?h"
    if "\<forall>k \<in> set sk. k \<notin> fst ` set (entity_headers ent)"
  proof -
    have "filter (\<lambda>p. fst p \<notin> set sk) ?h = ?h"
      using that keys by (auto simp: filter_id_conv)
    then show ?thesis by (simp add: extract_header_filter)
  qed
  have ignored: "extract_header ent (Some sk) =
       extract_header ent (Some (filter (\<lambda>k. k \<in> fst ` set (entity_headers ent)) sk))"
    using keys by (auto simp: extract_header_filter intro: filter_cong)
  from all_absent ignored show ?thesis
    by (auto simp: dict_of_distinct)
qed

theorem extract_header_absent_names_witness:
  "str ''b'' \<notin> fst ` set (entity_headers (Request example_request))
   \<and> extract_header (Request example_request) (Some [str ''b'']) = [(str ''a'', PStr (str ''1''))]
   \<and> extract_header (Request example_request) (Some [str ''b''])
       = entity_headers (Request example_request)"
  using extract_header_absent_names [of "[str ''b'']" "Request example_request"]
  by (simp add: example_request_def dict_of_def str_eq_iff)

text \<open>
  Claim C9. In the mapping of \<open>get_request_info\<close> and in the mapping of
  \<open>get_response_info\<close> the key \<open>headers\<close> is absent when \<open>capture_headers\<close> is false; when
  it is true the key holds the entity's headers without the skip-listed names.
\<close>

theorem headers_key_follows_capture_headers:
  "(get_client_ip r = Inr a \<and> U (url r) = Inr u \<longrightarrow>
      (\<exists>res. get_request_info H U cfg r skip = Inr res
         \<and> (\<not> capture_headers cfg \<longrightarrow> str ''headers'' \<notin> fst ` set res)
         \<and> (capture_headers cfg \<longrightarrow>
              dict_get res (str ''headers'') =
                Some (PDict (filter (\<lambda>p. fst p \<notin> set (case skip of None \<Rightarrow> [] | Some sk \<Rightarrow> sk))
                               (dict_of (headers r)))))))
   \<and> (get_response_info cfg resp skip = Inr res' \<longrightarrow>
         (\<not> capture_headers cfg \<longrightarrow> str ''headers'' \<notin> fst ` set res')
         \<and> (capture_headers cfg \<longrightarrow>
              dict_get res' (str ''headers'') =
                Some (PDict (filter (\<lambda>p. fst p \<notin> set (case skip of None \<Rightarrow> [] | Some sk \<Rightarrow> sk))
                               (dict_of (resp_headers resp))))))"
proof -
  have req: "\<exists>res. get_request_info H U cfg r skip = Inr res
         \<and> (\<not> capture_headers cfg \<longrightarrow> str ''headers'' \<notin> fst ` set res)
         \<and> (capture_headers cfg \<longrightarrow>
              dict_get res (str ''headers'') =
                Some (PDict (filter (\<lambda>p. fst p \<notin> set (case skip of None \<Rightarrow> [] | Some sk \<Rightarrow> sk))
                               (dict_of (headers r)))))"
    if address: "get_client_ip r = Inr a" and returned: "U (url r) = Inr u"
  proof -
    obtain res where res: "get_request_info H U cfg r skip = Inr res"
      using request_info_returns [where U = U and r = r, OF address returned] by blast
    have "dict_get res (str ''headers'') =
           (if capture_headers cfg then Some (PDict (extract_header (Request r) skip)) else None)"
      using res by (rule request_info_headers)
    then have "(\<not> capture_headers cfg \<longrightarrow> str ''headers'' \<notin> fst ` set res)
         \<and> (capture_headers cfg \<longrightarrow>
              dict_get res (str ''headers'') =
                Some (PDict (filter (\<lambda>p. fst p \<notin> set (case skip of None \<Rightarrow> [] | Some sk \<Rightarrow> sk))
                               (dict_of (headers r)))))"
      by (simp add: dict_get_None_iff [symmetric] extract_header_filter)
    with res show ?thesis by blast
  qed
  have resp: "(\<not> capture_headers cfg \<longrightarrow> str ''headers'' \<notin> fst ` set res')
         \<and> (capture_headers cfg \<longrightarrow>
              dict_get res' (str ''headers'') =
                Some (PDict (filter (\<lambda>p. fst p \<notin> set (case skip of None \<Rightarrow> [] | Some sk \<Rightarrow> sk))
                               (dict_of (resp_headers resp)))))"
    if "get_response_info cfg resp skip = Inr res'"
  proof -
    have "dict_get res' (str ''headers'') =
           (if capture_headers cfg then Some (PDict (extract_header (HTTPResponse resp) skip)) else None)"
      using that by (rule response_info_headers)
    then show ?thesis
      by (simp add: dict_get_None_iff [symmetric] extract_header_filter)
  qed
  from req resp show ?thesis by blast
qed

theorem headers_key_follows_capture_headers_witness:
  "(\<exists>res. get_request_info example_methods example_url_dict example_config example_request
             (Some [str ''cookie'']) = Inr res
          \<and> dict_get res (str ''headers'') = Some (PDict [(str ''a'', PStr (str ''1''))]))
   \<and> (\<exists>res. get_request_info example_methods example_url_dict
               (example_config\<lparr>capture_headers := False\<rparr>) example_request (Some [str ''a'']) = Inr res
          \<and> str ''headers'' \<notin> fst ` set res)
   \<and> get_response_info example_config (example_response\<lparr>resp_body := ''ok''\<rparr>) (Some [str ''a''])
        = Inr [(str ''cookies'', PDict []), (str ''status_code'', PInt 200),
               (str ''headers'', PDict []), (str ''body'', PStr (str ''ok''))]
   \<and> dict_get [(str ''cookies'', PDict []), (str ''status_code'', PInt 200),
               (str ''headers'', PDict []), (str ''body'', PStr (str ''ok''))] (str ''headers'')
        = Some (PDict [])"
proof -
  let ?out = "[(str ''cookies'', PDict []), (str ''status_code'', PInt 200),
               (str ''headers'', PDict []), (str ''body'', PStr (str ''ok''))]"
  have a: "\<exists>res. get_request_info example_methods example_url_dict example_config example_request
             (Some [str ''cookie'']) = Inr res
          \<and> dict_get res (str ''headers'') = Some (PDict [(str ''a'', PStr (str ''1''))])"
    using example_address example_url headers_key_follows_capture_headers
      [where U = example_url_dict and r = example_request and H = example_methods
         and cfg = example_config and skip = "Some [str ''cookie'']"]
    by (simp add: example_config_def example_request_def dict_of_def str_eq_iff)
  have b: "\<exists>res. get_request_info example_methods example_url_dict
               (example_config\<lparr>capture_headers := False\<rparr>) example_request (Some [str ''a'']) = Inr res
          \<and> str ''headers'' \<notin> fst ` set res"
    using example_address example_url headers_key_follows_capture_headers
      [where U = example_url_dict and r = example_request and H = example_methods
         and cfg = "example_config\<lparr>capture_headers := False\<rparr>" and skip = "Some [str ''a'']"]
    by (simp add: example_config_def)
  have c: "get_response_info example_config (example_response\<lparr>resp_body := ''ok''\<rparr>)
             (Some [str ''a'']) = Inr ?out"
    by (simp add: get_response_info_def extract_header_def dict_of_def decode_utf8_def
        example_config_def example_response_def str_def Let_def)
  have d: "dict_get ?out (str ''headers'') = Some (PDict [])"
    using c headers_key_follows_capture_headers
      [where cfg = example_config and resp = "example_response\<lparr>resp_body := ''ok''\<rparr>"
         and skip = "Some [str ''a'']" and res' = ?out]
    by (simp add: example_config_def example_response_def dict_of_def str_eq_iff)
  from a b c d show ?thesis by blast
qed

text \<open>
  Claim C10. When a key of the application's config is also a name yielded by \<open>get_env\<close>,
  the \<open>env\<close> mapping of the request info holds the application's value for that key.
\<close>

theorem app_config_overrides_env:
  assumes "k \<in> fst ` set (get_env r)"
    and "dict_get (dict_of (app_config r)) k = Some v"
    and "get_client_ip r = Inr a"
    and "U (url r) = Inr u"
  shows "\<exists>res env. get_request_info H U cfg r skip = Inr res
           \<and> dict_get res (str ''env'') = Some (PDict env)
           \<and> dict_get env k = Some v"
proof -
  obtain res where res: "get_request_info H U cfg r skip = Inr res"
    using request_info_returns [where U = U and r = r, OF assms(3,4)] by blast
  let ?env = "dict_update (dict_of (get_env r)) (dict_of (app_config r))"
  have "dict_get res (str ''env'') = Some (PDict ?env)"
    using res by (rule request_info_env)
  moreover have "dict_get ?env k = Some v"
    using assms(2) by (simp add: dict_get_update_dict)
  ultimately show ?thesis using res by blast
qed

theorem app_config_overrides_env_witness:
  "(str ''server_name'', PStr (str ''localhost'')) \<in> set (get_env example_request)
   \<and> dict_get (dict_of (app_config example_request)) (str ''server_name'')
       = Some (PStr (str ''configured''))
   \<and> (\<exists>res env. get_request_info example_methods example_url_dict example_config example_request None
                   = Inr res
           \<and> dict_get res (str ''env'') = Some (PDict env)
           \<and> dict_get env (str ''server_name'') = Some (PStr (str ''configured'')))"
proof -
  have g: "get_env example_request =
     [(str ''server_name'', PStr (str ''localhost'')), (str ''server_port'', PInt 8000)]"
    by (simp add: get_env_def env_attrs_def getattr_def example_request_def str_eq_iff)
  have k: "str ''server_name'' \<in> fst ` set (get_env example_request)"
    by (simp add: g)
  have c: "dict_get (dict_of (app_config example_request)) (str ''server_name'')
       = Some (PStr (str ''configured''))"
    by (simp add: dict_of_def example_request_def)
  from app_config_overrides_env
         [where U = example_url_dict and r = example_request and H = example_methods
            and cfg = example_config and skip = None, OF k c example_address example_url] g c
  show ?thesis by simp
qed

text \<open>
  Claim C4 says that with body capture disabled the \<open>body\<close> of the request info is
  \<^verbatim>\<open>[REDACTED]\<close>. Body capture is disabled by \<^verbatim>\<open>capture_body = "off"\<close>, and line 74 tests
  only the truth value of that string, which is true: a \<^verbatim>\<open>POST\<close> with content type
  \<open>text/plain\<close> and the body \<open>abc\<close> gets the body \<open>abc\<close>.
\<close>

theorem capture_off_body_not_redacted:
  "capture_body (example_config\<lparr>capture_body := str ''off''\<rparr>) = str ''off''
   \<and> get_request_info example_methods example_url_dict
        (example_config\<lparr>capture_body := str ''off''\<rparr>)
        (example_request\<lparr>content_type := str ''text/plain''\<rparr>) None
       = Inr [(str ''env'', PDict [(str ''server_name'', PStr (str ''configured'')),
                                  (str ''server_port'', PInt 8000)]),
              (str ''method'', PStr (str ''POST'')),
              (str ''socket'', PDict [(str ''remote_address'', PStr (str ''10.0.0.1'')),
                                     (str ''encrypted'', PBool True)]),
              (str ''cookies'', PDict []),
              (str ''headers'', PDict [(str ''a'', PStr (str ''1''))]),
              (str ''body'', PStr (str ''abc'')),
              (str ''url'', PDict [(str ''full'', PStr (str ''https://h/p''))])]
   \<and> str ''abc'' \<noteq> str ''[REDACTED]''"
  by (simp add: get_request_info_def get_env_def env_attrs_def getattr_def
      get_client_ip_def extract_header_def dict_of_def dict_contains_def decode_utf8_def
      example_methods_def example_url_dict_def example_config_def example_request_def
      str_def Let_def)

text \<open>
  Claim C5. For a body-bearing method, with body capture enabled, a content type that
  neither starts with \<open>multipart\<close> nor contains \<open>octet-stream\<close>, and a body that is valid
  UTF-8, the \<open>body\<close> of the request info is the decoded string. Every enabled value of
  \<^verbatim>\<open>capture_body\<close> is a non-empty string, which is what line 74 tests.
\<close>

theorem body_decoded_when_captured:
  assumes "method r \<in> set H" and "capture_body cfg \<noteq> []"
    and "\<not> startswith (content_type r) (str ''multipart'')"
    and "\<not> contains (str ''octet-stream'') (content_type r)"
    and "decode_utf8 (body r) = Some s"
    and "get_client_ip r = Inr a"
    and "U (url r) = Inr u"
  shows "\<exists>res. get_request_info H U cfg r skip = Inr res
           \<and> dict_get res (str ''body'') = Some (PStr s)"
proof -
  obtain res where res: "get_request_info H U cfg r skip = Inr res"
    using request_info_returns [where U = U and r = r, OF assms(6,7)] by blast
  from request_info_body [OF res] assms(1,2,5)
  have "dict_get res (str ''body'') = Some (PStr s)"
    by simp
  with res show ?thesis by blast
qed

theorem body_decoded_when_captured_witness:
  "decode_utf8 (body (example_request\<lparr>content_type := str ''text/plain''\<rparr>)) = Some (str ''abc'')
   \<and> (\<exists>res. get_request_info example_methods example_url_dict example_config
               (example_request\<lparr>content_type := str ''text/plain''\<rparr>) None = Inr res
           \<and> dict_get res (str ''body'') = Some (PStr (str ''abc'')))"
proof -
  let ?r = "example_request\<lparr>content_type := str ''text/plain''\<rparr>"
  have m: "method ?r \<in> set example_methods"
    by (simp add: example_request_def example_methods_def)
  have c: "capture_body example_config \<noteq> []"
    by (simp add: example_config_def str_def)
  have t1: "\<not> startswith (content_type ?r) (str ''multipart'')"
    by (simp add: str_def)
  have t2: "\<not> contains (str ''octet-stream'') (content_type ?r)"
    by (simp add: str_def)
  have d: "decode_utf8 (body ?r) = Some (str ''abc'')"
    by (simp add: example_request_def decode_utf8_def str_def)
  have a: "get_client_ip ?r = Inr (str ''10.0.0.1'')"
    by (simp add: get_client_ip_def example_request_def)
  have u: "example_url_dict (url ?r) = Inr (PDict [(str ''full'', PStr (str ''https://h/p''))])"
    by (simp add: example_url_dict_def example_request_def)
  from d body_decoded_when_captured
         [where U = example_url_dict and skip = None, OF m c t1 t2 d a u]
  show ?thesis by simp
qed

text \<open>
  Claim C3. A mapping returned by \<open>get_request_info\<close> or by \<open>get_response_info\<close> holds
  the key \<open>body\<close> exactly once, and its value is the decoded body, \<^verbatim>\<open>[DISCARDED]\<close> or
  \<^verbatim>\<open>[REDACTED]\<close>. \<open>get_request_info\<close> returns a mapping exactly when \<open>get_client_ip\<close> and
  \<open>get_url_dict\<close> return; \<open>get_response_info\<close> returns one unless it attempts the
  decoding and the decoding fails.
\<close>

theorem body_key_present_once:
  "(get_request_info H U cfg r skip = Inr res \<longrightarrow>
      count_list (map fst res) (str ''body'') = 1
      \<and> ((\<exists>s. decode_utf8 (body r) = Some s \<and> dict_get res (str ''body'') = Some (PStr s))
         \<or> dict_get res (str ''body'') = Some (PStr (str ''[DISCARDED]''))
         \<or> dict_get res (str ''body'') = Some (PStr (str ''[REDACTED]''))))
   \<and> (get_response_info cfg' resp skip' = Inr res' \<longrightarrow>
      count_list (map fst res') (str ''body'') = 1
      \<and> ((\<exists>s. decode_utf8 (resp_body resp) = Some s \<and> dict_get res' (str ''body'') = Some (PStr s))
         \<or> dict_get res' (str ''body'') = Some (PStr (str ''[DISCARDED]''))
         \<or> dict_get res' (str ''body'') = Some (PStr (str ''[REDACTED]''))))
   \<and> ((\<exists>res. get_request_info H U cfg r skip = Inr res) \<longleftrightarrow>
        (\<exists>a. get_client_ip r = Inr a) \<and> (\<exists>u. U (url r) = Inr u))
   \<and> ((\<exists>res'. get_response_info cfg' resp skip' = Inr res') \<longleftrightarrow>
        \<not> (capture_body cfg' \<noteq> [] \<and> \<not> contains (str ''octet-stream'') (resp_content_type resp)
           \<and> decode_utf8 (resp_body resp) = None))"
proof -
  have once: "count_list (map fst d) (str ''body'') = 1"
    if "distinct (map fst d)" and "dict_get d (str ''body'') = Some v" for d :: dict and v
  proof -
    from that(2) have "str ''body'' \<in> set (map fst d)"
      using dict_get_None_iff [of d "str ''body''"] by auto
    with that(1) show ?thesis by (rule count_list_distinct)
  qed
  have req: "count_list (map fst res) (str ''body'') = 1
      \<and> ((\<exists>s. decode_utf8 (body r) = Some s \<and> dict_get res (str ''body'') = Some (PStr s))
         \<or> dict_get res (str ''body'') = Some (PStr (str ''[DISCARDED]''))
         \<or> dict_get res (str ''body'') = Some (PStr (str ''[REDACTED]'')))"
    if returned: "get_request_info H U cfg r skip = Inr res"
  proof -
    note b = request_info_body [OF returned]
    have "count_list (map fst res) (str ''body'') = 1"
      using request_info_distinct [OF returned] b by (rule once)
    moreover have "(\<exists>s. decode_utf8 (body r) = Some s \<and> dict_get res (str ''body'') = Some (PStr s))
         \<or> dict_get res (str ''body'') = Some (PStr (str ''[DISCARDED]''))
         \<or> dict_get res (str ''body'') = Some (PStr (str ''[REDACTED]''))"
      using b by (auto split: option.splits if_splits)
    ultimately show ?thesis by blast
  qed
  have resp: "count_list (map fst res') (str ''body'') = 1
      \<and> ((\<exists>s. decode_utf8 (resp_body resp) = Some s \<and> dict_get res' (str ''body'') = Some (PStr s))
         \<or> dict_get res' (str ''body'') = Some (PStr (str ''[DISCARDED]''))
         \<or> dict_get res' (str ''body'') = Some (PStr (str ''[REDACTED]'')))"
    if returned: "get_response_info cfg' resp skip' = Inr res'"
  proof -
    note b = response_info_body [OF returned]
    have "count_list (map fst res') (str ''body'') = 1"
      using response_info_distinct [OF returned] b by (rule once)
    moreover have "decode_utf8 (resp_body resp) \<noteq> None"
      if "capture_body cfg' \<noteq> []"
        and "\<not> contains (str ''octet-stream'') (resp_content_type resp)"
      using returned that by (auto simp: get_response_info_def Let_def split: option.splits)
    then have "(\<exists>s. decode_utf8 (resp_body resp) = Some s \<and> dict_get res' (str ''body'') = Some (PStr s))
         \<or> dict_get res' (str ''body'') = Some (PStr (str ''[DISCARDED]''))
         \<or> dict_get res' (str ''body'') = Some (PStr (str ''[REDACTED]''))"
      using b by (auto split: if_splits)
    ultimately show ?thesis by blast
  qed
  have ret: "(\<exists>res. get_request_info H U cfg r skip = Inr res) \<longleftrightarrow>
        (\<exists>a. get_client_ip r = Inr a) \<and> (\<exists>u. U (url r) = Inr u)"
    by (rule request_info_returns_iff)
  have ret': "(\<exists>res'. get_response_info cfg' resp skip' = Inr res') \<longleftrightarrow>
        \<not> (capture_body cfg' \<noteq> [] \<and> \<not> contains (str ''octet-stream'') (resp_content_type resp)
           \<and> decode_utf8 (resp_body resp) = None)"
    by (auto simp: get_response_info_def Let_def split: option.splits)
  from req resp ret ret' show ?thesis by blast
qed

theorem body_key_present_once_witness:
  "(\<exists>res. get_request_info example_methods example_url_dict example_config example_request None
            = Inr res
         \<and> count_list (map fst res) (str ''body'') = 1
         \<and> dict_get res (str ''body'') = Some (PStr (str ''abc'')))
   \<and> get_response_info example_config (example_response\<lparr>resp_body := ''ok''\<rparr>) None
       = Inr [(str ''cookies'', PDict []), (str ''status_code'', PInt 200),
              (str ''headers'', PDict [(str ''a'', PStr (str ''1''))]),
              (str ''body'', PStr (str ''ok''))]
   \<and> count_list (map fst [(str ''cookies'', PDict []), (str ''status_code'', PInt 200),
              (str ''headers'', PDict [(str ''a'', PStr (str ''1''))]),
              (str ''body'', PStr (str ''ok''))]) (str ''body'') = 1"
proof -
  let ?out = "[(str ''cookies'', PDict []), (str ''status_code'', PInt 200),
              (str ''headers'', PDict [(str ''a'', PStr (str ''1''))]),
              (str ''body'', PStr (str ''ok''))]"
  obtain res where res:
    "get_request_info example_methods example_url_dict example_config example_request None = Inr res"
    using request_info_returns
            [where U = example_url_dict and r = example_request, OF example_address example_url]
    by blast
  have resp: "get_response_info example_config (example_response\<lparr>resp_body := ''ok''\<rparr>) None
       = Inr ?out"
    by (simp add: get_response_info_def extract_header_def dict_of_def decode_utf8_def
        example_config_def example_response_def str_def Let_def)
  note inst = body_key_present_once
         [where H = example_methods and U = example_url_dict and cfg = example_config
            and r = example_request and skip = None and res = res
            and cfg' = example_config and resp = "example_response\<lparr>resp_body := ''ok''\<rparr>"
            and skip' = None and res' = ?out]
  have d: "decode_utf8 (body example_request) = Some (str ''abc'')"
    by (simp add: example_request_def decode_utf8_def str_def)
  have b: "dict_get res (str ''body'') = Some (PStr (str ''abc''))"
    using request_info_body [OF res] d
    by (simp add: example_request_def example_methods_def example_config_def str_def)
  from inst res resp b show ?thesis by simp
qed

text \<open>
  Claim C2 says that a body that does not decode degrades to \<^verbatim>\<open>[REDACTED]\<close> and that no
  error reaches the caller, for requests and responses alike. \<open>get_request_info\<close> decodes
  inside a \<^verbatim>\<open>try\<close> (lines 77-80); \<open>get_response_info\<close> decodes outside any (line 103):
  for a response with content type \<open>text/plain\<close> whose body is the byte \<open>0xFF\<close> it
  raises \<^verbatim>\<open>UnicodeDecodeError\<close>.
\<close>

theorem response_decode_failure_raises:
  "decode_utf8 (resp_body example_response) = None
   \<and> capture_body example_config = str ''all''
   \<and> resp_content_type example_response = str ''text/plain''
   \<and> get_response_info example_config example_response None = Inl UnicodeDecodeError"
  by (simp add: get_response_info_def extract_header_def dict_of_def decode_utf8_def
      example_config_def example_response_def str_def Let_def)

text \<open>
  Claim C1 says that a request with an octet-stream content type gets the body
  \<^verbatim>\<open>[DISCARDED]\<close>. The source sets that marker and then decodes the body all the same,
  with no \<^verbatim>\<open>else\<close>: a \<^verbatim>\<open>POST\<close> with content type \<open>application/octet-stream\<close> and the
  body \<open>abc\<close> gets the body \<open>abc\<close>.
\<close>

theorem octet_stream_body_overwritten:
  "method example_request \<in> set example_methods
   \<and> capture_body example_config = str ''all''
   \<and> contains (str ''octet-stream'') (content_type example_request)
   \<and> get_request_info example_methods example_url_dict example_config example_request None
       = Inr [(str ''env'', PDict [(str ''server_name'', PStr (str ''configured'')),
                                  (str ''server_port'', PInt 8000)]),
              (str ''method'', PStr (str ''POST'')),
              (str ''socket'', PDict [(str ''remote_address'', PStr (str ''10.0.0.1'')),
                                     (str ''encrypted'', PBool True)]),
              (str ''cookies'', PDict []),
              (str ''headers'', PDict [(str ''a'', PStr (str ''1''))]),
              (str ''body'', PStr (str ''abc'')),
              (str ''url'', PDict [(str ''full'', PStr (str ''https://h/p''))])]
   \<and> str ''abc'' \<noteq> str ''[DISCARDED]''"
  by (simp add: get_request_info_def get_env_def env_attrs_def getattr_def
      get_client_ip_def extract_header_def dict_of_def dict_contains_def decode_utf8_def
      example_methods_def example_url_dict_def example_config_def example_request_def
      str_def Let_def)

end
